theory Spec2Isabelle
  imports Complex_Main
begin

section \<open>JavaScript values used by the dashboard\<close>

text \<open>
  The dashboard is TypeScript running on IEEE doubles. Numbers are modelled exactly
  (\<open>real\<close>, \<open>int\<close>): a field that may be absent (\<open>undefined\<close> or \<open>null\<close>) is an
  \<open>option\<close>, and the results that are not numbers are separate constructors. The
  rounding of doubles themselves is not modelled.
\<close>

definition or0 :: "real option \<Rightarrow> real" where
  \<comment> \<open>\<^verbatim>\<open>x || 0\<close> for an optional number: absent and 0 both give 0.\<close>
  "or0 x = (case x of None \<Rightarrow> 0 | Some v \<Rightarrow> v)"

definition truthy :: "real option \<Rightarrow> bool" where
  \<comment> \<open>The truthiness of an optional number: present and not 0.\<close>
  "truthy x = (case x of None \<Rightarrow> False | Some v \<Rightarrow> v \<noteq> 0)"

definition round1 :: "real \<Rightarrow> real" where
  \<comment> \<open>\<^verbatim>\<open>Math.round(x * 10) / 10\<close>; \<^verbatim>\<open>Math.round\<close> is \<open>floor (x + 1/2)\<close>.\<close>
  "round1 x = real_of_int \<lfloor>x * 10 + 1 / 2\<rfloor> / 10"

section \<open>Activities\<close>

text \<open>
  The \<^verbatim>\<open>Distance\<close> column of the export is a string in miles. What the code does
  with it depends only on what \<^verbatim>\<open>parseFloat\<close> reads from it.
\<close>

datatype distance_str =
    Absent          \<comment> \<open>the field is missing, null or the empty string\<close>
  | NotNumeric      \<comment> \<open>\<^verbatim>\<open>parseFloat\<close> gives NaN\<close>
  | Miles real      \<comment> \<open>\<^verbatim>\<open>parseFloat\<close> gives this number\<close>

record activity =
  Activity_Type :: string
  Activity_Date :: "int option"      \<comment> \<open>the parsed date in local milliseconds; \<open>None\<close> is Invalid Date\<close>
  Distance :: distance_str           \<comment> \<open>miles, as a string\<close>
  Distance_1 :: "real option"        \<comment> \<open>\<^verbatim>\<open>Distance.1\<close>, metres\<close>
  Moving_Time :: "real option"       \<comment> \<open>seconds\<close>
  Elevation_Gain :: "real option"    \<comment> \<open>feet\<close>
  Dirt_Distance :: "real option"     \<comment> \<open>metres\<close>

subsection \<open>The normalised fields\<close>

definition distance :: "activity \<Rightarrow> real" where
  \<comment> \<open>\<^verbatim>\<open>act['Distance.1'] ? act['Distance.1'] / 1609.34 : (parseFloat(act.Distance) || 0)\<close>\<close>
  "distance a =
     (if truthy (Distance_1 a) then or0 (Distance_1 a) / 1609.34
      else (case Distance a of Miles m \<Rightarrow> m | _ \<Rightarrow> 0))"

definition hours :: "activity \<Rightarrow> real" where
  \<comment> \<open>\<^verbatim>\<open>(act['Moving Time'] || 0) / 3600\<close>\<close>
  "hours a = or0 (Moving_Time a) / 3600"

subsection \<open>The terrain classifier\<close>

definition totalDistance :: "activity \<Rightarrow> real option" where
  \<comment> \<open>\<^verbatim>\<open>activity['Distance.1'] ? activity['Distance.1'] / 1609.34 : parseFloat(activity.Distance || 0)\<close>;
      \<open>None\<close> is NaN.\<close>
  "totalDistance a =
     (if truthy (Distance_1 a) then Some (or0 (Distance_1 a) / 1609.34)
      else (case Distance a of Absent \<Rightarrow> Some 0 | NotNumeric \<Rightarrow> None | Miles m \<Rightarrow> Some m))"

definition positive :: "real option \<Rightarrow> bool" where
  \<comment> \<open>\<^verbatim>\<open>x > 0\<close>, which is false for NaN.\<close>
  "positive x = (case x of None \<Rightarrow> False | Some v \<Rightarrow> v > 0)"

definition isTrailRun :: "activity \<Rightarrow> bool" where
  "isTrailRun a =
     (let dirtDistance = or0 (Dirt_Distance a);
          elevationGain = or0 (Elevation_Gain a);
          td = totalDistance a;
          elevationPerMile = (if positive td then elevationGain / the td else 0);
          dirtPercentage = (if positive td then (dirtDistance / 1609.34) / the td * 100 else 0)
      in elevationPerMile > 50 \<or> dirtPercentage > 50)"

text \<open>The quantities the specification names, on a normalised activity.\<close>

definition elevationGainFeet :: "activity \<Rightarrow> real" where
  "elevationGainFeet a = or0 (Elevation_Gain a)"

definition dirtDistanceMiles :: "activity \<Rightarrow> real" where
  "dirtDistanceMiles a = or0 (Dirt_Distance a) / 1609.34"

definition ratio0 :: "real \<Rightarrow> real \<Rightarrow> real" where
  \<comment> \<open>A ratio that is treated as 0 when the distance is 0.\<close>
  "ratio0 x d = (if d = 0 then 0 else x / d)"

section \<open>Races\<close>

record race =
  race_date :: int                    \<comment> \<open>\<^verbatim>\<open>new Date(race.date).getTime()\<close>, a valid date\<close>
  race_distance :: real               \<comment> \<open>\<^verbatim>\<open>distance\<close>, miles\<close>
  race_time :: string                 \<comment> \<open>\<^verbatim>\<open>time\<close>; the empty string also stands for a missing time\<close>
  race_name :: string                 \<comment> \<open>\<^verbatim>\<open>race\<close>\<close>
  overall_place :: "int option"
  division_place :: "int option"

subsection \<open>Medals of the race table\<close>

datatype medal = Gold | Silver | Bronze

definition isPodium :: "race \<Rightarrow> bool" where
  \<comment> \<open>\<^verbatim>\<open>race.overall_place && race.overall_place <= 3\<close>\<close>
  "isPodium r = (case overall_place r of None \<Rightarrow> False | Some p \<Rightarrow> p \<noteq> 0 \<and> p \<le> 3)"

definition isAgGroupPodium :: "race \<Rightarrow> bool" where
  \<comment> \<open>\<^verbatim>\<open>race.division_place && race.division_place <= 3\<close>\<close>
  "isAgGroupPodium r = (case division_place r of None \<Rightarrow> False | Some p \<Rightarrow> p \<noteq> 0 \<and> p \<le> 3)"

definition getMedalEmoji :: "race \<Rightarrow> medal option" where
  \<comment> \<open>The race table of the bib book.\<close>
  "getMedalEmoji r =
     (if isPodium r then Some Gold
      else if division_place r = Some 1 then Some Gold
      else if division_place r = Some 2 then Some Silver
      else if division_place r = Some 3 then Some Bronze
      else None)"

definition getMedalEmoji_season :: "race \<Rightarrow> medal option" where
  \<comment> \<open>The race table of the season view.\<close>
  "getMedalEmoji_season r =
     (if division_place r = Some 1 \<or> isPodium r then Some Gold
      else if division_place r = Some 2 then Some Silver
      else if division_place r = Some 3 then Some Bronze
      else None)"

definition medalShown :: "(race \<Rightarrow> medal option) \<Rightarrow> race \<Rightarrow> medal option" where
  \<comment> \<open>\<^verbatim>\<open>(isAgGroupPodium || isPodium) && <span>{getMedalEmoji()}</span>\<close>\<close>
  "medalShown emoji r = (if isAgGroupPodium r \<or> isPodium r then emoji r else None)"

definition medal_policy :: "race \<Rightarrow> medal option" where
  \<comment> \<open>The medal rule in the words of the specification.\<close>
  "medal_policy r =
     (if (case overall_place r of None \<Rightarrow> False | Some p \<Rightarrow> p \<le> 3) then Some Gold
      else (case division_place r of
              None \<Rightarrow> None
            | Some p \<Rightarrow> if p = 1 then Some Gold else if p = 2 then Some Silver
                        else if p = 3 then Some Bronze else None))"

subsection \<open>Strings and integers read from strings\<close>

datatype jsint = NaN | Num int
  \<comment> \<open>What \<^verbatim>\<open>parseInt\<close> and sums of its results give: NaN or an integer.\<close>

fun jadd :: "jsint \<Rightarrow> jsint \<Rightarrow> jsint" where
  "jadd (Num a) (Num b) = Num (a + b)"
| "jadd _ _ = NaN"

fun jmul :: "jsint \<Rightarrow> jsint \<Rightarrow> jsint" where
  "jmul (Num a) (Num b) = Num (a * b)"
| "jmul _ _ = NaN"

fun jlt :: "jsint \<Rightarrow> jsint \<Rightarrow> bool" where
  \<comment> \<open>\<^verbatim>\<open>a < b\<close>: every comparison with NaN is false.\<close>
  "jlt (Num a) (Num b) = (a < b)"
| "jlt _ _ = False"

fun jmin :: "jsint \<Rightarrow> jsint \<Rightarrow> jsint" where
  "jmin (Num a) (Num b) = Num (min a b)"
| "jmin _ _ = NaN"

definition Math_min :: "jsint \<Rightarrow> jsint list \<Rightarrow> jsint" where
  \<comment> \<open>\<^verbatim>\<open>Math.min(x, ...xs)\<close>: NaN as soon as one argument is NaN.\<close>
  "Math_min x xs = foldl jmin x xs"

fun js_split :: "char \<Rightarrow> string \<Rightarrow> string list" where
  \<comment> \<open>\<^verbatim>\<open>s.split(c)\<close> for a separator of one character.\<close>
  "js_split c [] = [[]]"
| "js_split c (x # xs) =
     (if x = c then [] # js_split c xs
      else (case js_split c xs of p # ps \<Rightarrow> (x # p) # ps | [] \<Rightarrow> [[x]]))"

definition js_includes :: "string \<Rightarrow> char \<Rightarrow> bool" where
  \<comment> \<open>\<^verbatim>\<open>s.includes(c)\<close> for one character.\<close>
  "js_includes s c = (c \<in> set s)"

definition isWhiteSpace :: "char \<Rightarrow> bool" where
  \<comment> \<open>The white space of ECMAScript that has one byte: TAB, LF, VT, FF, CR, SP.\<close>
  "isWhiteSpace c = (c \<in> set [CHR 0x09, CHR 0x0A, CHR 0x0B, CHR 0x0C, CHR 0x0D, CHR 0x20])"

definition digitValue :: "char \<Rightarrow> nat" where
  \<comment> \<open>The value of a digit in a radix up to 36; 36 for every other character.\<close>
  "digitValue c =
     (let n = of_char c :: nat in
      if 48 \<le> n \<and> n \<le> 57 then n - 48
      else if 97 \<le> n \<and> n \<le> 122 then n - 87
      else if 65 \<le> n \<and> n \<le> 90 then n - 55
      else 36)"

definition parseInt :: "string \<Rightarrow> jsint" where
  \<comment> \<open>\<^verbatim>\<open>parseInt(s)\<close> with no radix: leading white space, a sign, \<^verbatim>\<open>0x\<close> for radix 16,
      then the longest run of digits; NaN when that run is empty.\<close>
  "parseInt s =
     (let s1 = dropWhile isWhiteSpace s;
          neg = (take 1 s1 = ''-'');
          s2 = (if take 1 s1 = ''-'' \<or> take 1 s1 = ''+'' then drop 1 s1 else s1);
          hex = (take 2 s2 = ''0x'' \<or> take 2 s2 = ''0X'');
          radix = (if hex then 16 else 10);
          s3 = (if hex then drop 2 s2 else s2);
          z = takeWhile (\<lambda>c. digitValue c < radix) s3;
          mathInt = foldl (\<lambda>acc c. acc * radix + digitValue c) 0 z
      in if z = [] then NaN else Num ((if neg then - 1 else 1) * int mathInt))"

subsection \<open>Race times\<close>


definition hms :: "string \<Rightarrow> jsint" where
  \<comment> \<open>The shared tail of the conversions:
      \<^verbatim>\<open>const parts = timeStr.split(':');
      if (parts.length === 3) return parseInt(parts[0]) * 3600 + parseInt(parts[1]) * 60 + parseInt(parts[2]);
      return 0;\<close>\<close>
  "hms timeStr =
     (let parts = js_split CHR '':'' timeStr in
      if length parts = 3
      then jadd (jadd (jmul (parseInt (parts ! 0)) (Num 3600)) (jmul (parseInt (parts ! 1)) (Num 60)))
             (parseInt (parts ! 2))
      else Num 0)"

definition timeToSeconds_lab :: "string \<Rightarrow> jsint" where
  \<comment> \<open>\<^verbatim>\<open>timeToSeconds\<close> of the performance lab: no handling of \<^verbatim>\<open>T\<close>.\<close>
  "timeToSeconds_lab timeString = (if timeString = [] then Num 0 else hms timeString)"





subsection \<open>Distance classes\<close>

datatype distance_label =
    Marathon | Half_Marathon | FiveK | TenK | FifteenK
  | Raw_miles real    \<comment> \<open>the label \<^verbatim>\<open>`${race.distance} miles`\<close>\<close>

definition distanceLabel :: "real \<Rightarrow> distance_label" where
  \<comment> \<open>The label of \<^verbatim>\<open>availableDistances\<close> in the performance lab.\<close>
  "distanceLabel d =
     (if \<bar>d - 26.2\<bar> < 0.1 then Marathon
      else if \<bar>d - 13.1\<bar> < 0.1 then Half_Marathon
      else if \<bar>d - 3.1\<bar> < 0.1 then FiveK
      else if \<bar>d - 6.21371\<bar> < 0.1 then TenK
      else if \<bar>d - 9.3\<bar> < 0.1 then FifteenK
      else Raw_miles d)"

definition availableDistances :: "race list \<Rightarrow> distance_label set" where
  \<comment> \<open>The labels of the races with a distance and a time (the source returns the set
      as a sorted array).\<close>
  "availableDistances races =
     distanceLabel ` race_distance ` {r \<in> set races. race_distance r \<noteq> 0 \<and> race_time r \<noteq> []}"




subsection \<open>Personal records\<close>






subsection \<open>Progression of one distance\<close>

record progress =
  raceNumber :: nat
  raceName :: string
  date :: int
  timeSeconds :: jsint
  personalBest :: jsint

definition getDistanceValue :: "distance_label \<Rightarrow> real" where
  "getDistanceValue label =
     (case label of Marathon \<Rightarrow> 26.2 | Half_Marathon \<Rightarrow> 13.1 | FiveK \<Rightarrow> 3.1
                  | TenK \<Rightarrow> 6.21371 | FifteenK \<Rightarrow> 9.3 | Raw_miles d \<Rightarrow> d)"

definition labSeconds :: "race \<Rightarrow> jsint" where
  \<comment> \<open>\<^verbatim>\<open>race.time.includes('T') ? timeToSeconds(race.time.split('T')[1] || '') : timeToSeconds(race.time || '')\<close>\<close>
  "labSeconds race =
     (if js_includes (race_time race) CHR ''T''
      then timeToSeconds_lab (case js_split CHR ''T'' (race_time race) of
                                _ # timeStr # _ \<Rightarrow> timeStr | _ \<Rightarrow> [])
      else timeToSeconds_lab (race_time race))"

definition filteredRaces :: "race list \<Rightarrow> real \<Rightarrow> (race \<times> jsint) list" where
  \<comment> \<open>The races of the band with a valid time, each with its \<^verbatim>\<open>timeSeconds\<close>, sorted by
      date; \<^verbatim>\<open>Array.prototype.sort\<close> is stable.\<close>
  "filteredRaces races target =
     sort_key (\<lambda>(race, t). race_date race)
       (map (\<lambda>race. (race, labSeconds race))
         (filter (\<lambda>race. jlt (Num 0) (labSeconds race))
           (filter (\<lambda>race. \<bar>race_distance race - target\<bar> < 0.1 \<and> race_time race \<noteq> []) races)))"

definition raceProgressData :: "race list \<Rightarrow> distance_label option \<Rightarrow> progress list" where
  "raceProgressData races selectedDistance =
     (case selectedDistance of
        None \<Rightarrow> []
      | Some label \<Rightarrow>
          let rs = filteredRaces races (getDistanceValue label)
          in map (\<lambda>index.
                    \<lparr>raceNumber = index + 1,
                     raceName = race_name (fst (rs ! index)),
                     date = race_date (fst (rs ! index)),
                     timeSeconds = snd (rs ! index),
                     personalBest =
                       (if index = 0 then snd (rs ! index)
                        else Math_min (snd (rs ! index)) (map snd (take index rs)))\<rparr>)
                 [0..<length rs])"

section \<open>Dates\<close>

text \<open>
  A date is its number of milliseconds on the local time line, which is taken to have
  no daylight-saving shifts: every day has \<open>day_ms\<close> milliseconds. The functions of
  the date library are modelled from its documented behaviour, for intervals whose start
  is not after their end, as at every call in the views.
\<close>

definition day_ms :: int where
  "day_ms = 86400000"

definition days_from_civil :: "int \<Rightarrow> int \<Rightarrow> int \<Rightarrow> int" where
  \<comment> \<open>The day number (0 is 1 January 1970) of a year, a month from 1 to 12 and a day.\<close>
  "days_from_civil y m d =
     (let y1 = (if m \<le> 2 then y - 1 else y);
          era = y1 div 400;
          yoe = y1 - era * 400;
          doy = (153 * (if m > 2 then m - 3 else m + 9) + 2) div 5 + d - 1;
          doe = yoe * 365 + yoe div 4 - yoe div 100 + doy
      in era * 146097 + doe - 719468)"

definition civil_from_days :: "int \<Rightarrow> int \<times> int \<times> int" where
  \<comment> \<open>The year, the month from 1 to 12 and the day of a day number.\<close>
  "civil_from_days z0 =
     (let z = z0 + 719468;
          era = z div 146097;
          doe = z - era * 146097;
          yoe = (doe - doe div 1460 + doe div 36524 - doe div 146096) div 365;
          y = yoe + era * 400;
          doy = doe - (365 * yoe + yoe div 4 - yoe div 100);
          mp = (5 * doy + 2) div 153;
          d = doy - (153 * mp + 2) div 5 + 1;
          m = (if mp < 10 then mp + 3 else mp - 9)
      in (if m \<le> 2 then y + 1 else y, m, d))"

definition mkDate :: "int \<Rightarrow> int \<Rightarrow> int \<Rightarrow> int" where
  \<comment> \<open>\<^verbatim>\<open>new Date(year, monthIndex, day)\<close>: a month index outside 0 to 11 and a day
      outside the month carry over.\<close>
  "mkDate y monthIndex d =
     (days_from_civil (y + monthIndex div 12) (monthIndex mod 12 + 1) 1 + (d - 1)) * day_ms"

definition getFullYear :: "int \<Rightarrow> int" where
  "getFullYear t = fst (civil_from_days (t div day_ms))"

definition getMonth :: "int \<Rightarrow> int" where
  \<comment> \<open>The month index, 0 to 11.\<close>
  "getMonth t = fst (snd (civil_from_days (t div day_ms))) - 1"

definition getDay :: "int \<Rightarrow> int" where
  \<comment> \<open>The day of the week, 0 for Sunday; 1 January 1970 was a Thursday.\<close>
  "getDay t = (t div day_ms + 4) mod 7"

definition startOfDay :: "int \<Rightarrow> int" where
  "startOfDay t = t - t mod day_ms"

definition startOfWeek :: "int \<Rightarrow> int \<Rightarrow> int" where
  \<comment> \<open>\<^verbatim>\<open>startOfWeek(date, { weekStartsOn })\<close>; the default \<^verbatim>\<open>weekStartsOn\<close> is 0.\<close>
  "startOfWeek weekStartsOn t =
     (let day = getDay t;
          diff = (if day < weekStartsOn then 7 else 0) + day - weekStartsOn
      in startOfDay t - diff * day_ms)"

definition endOfWeek :: "int \<Rightarrow> int \<Rightarrow> int" where
  \<comment> \<open>\<^verbatim>\<open>endOfWeek(date, { weekStartsOn })\<close>: the last millisecond of the week.\<close>
  "endOfWeek weekStartsOn t =
     (let day = getDay t;
          diff = (if day < weekStartsOn then - 7 else 0) + 6 - (day - weekStartsOn)
      in startOfDay t + diff * day_ms + (day_ms - 1))"

definition subWeeks :: "int \<Rightarrow> int \<Rightarrow> int" where
  "subWeeks t amount = t - amount * 7 * day_ms"

definition startOfYear :: "int \<Rightarrow> int" where
  "startOfYear t = mkDate (getFullYear t) 0 1"

definition endOfYear :: "int \<Rightarrow> int" where
  "endOfYear t = mkDate (getFullYear t + 1) 0 0 + (day_ms - 1)"

definition startOfMonth :: "int \<Rightarrow> int" where
  "startOfMonth t = mkDate (getFullYear t) (getMonth t) 1"

definition endOfMonth :: "int \<Rightarrow> int" where
  "endOfMonth t = mkDate (getFullYear t) (getMonth t + 1) 0 + (day_ms - 1)"

definition isWithinInterval :: "int option \<Rightarrow> int \<Rightarrow> int \<Rightarrow> bool" where
  \<comment> \<open>\<^verbatim>\<open>isWithinInterval(date, { start, end })\<close>, both ends included; false for Invalid Date.\<close>
  "isWithinInterval d start endDate =
     (case d of None \<Rightarrow> False | Some t \<Rightarrow> start \<le> t \<and> t \<le> endDate)"

definition isSameDay :: "int option \<Rightarrow> int \<Rightarrow> bool" where
  "isSameDay d day = (case d of None \<Rightarrow> False | Some t \<Rightarrow> startOfDay t = startOfDay day)"

function stepDates :: "int \<Rightarrow> int \<Rightarrow> int \<Rightarrow> int list" where
  \<comment> \<open>The loop of \<^verbatim>\<open>eachDayOfInterval\<close> and \<^verbatim>\<open>eachWeekOfInterval\<close>:
      \<^verbatim>\<open>while (current <= endTime) { dates.push(current); current += step }\<close>\<close>
  "stepDates step current endTime =
     (if 0 < step \<and> current \<le> endTime
      then current # stepDates step (current + step) endTime
      else [])"
  by pat_completeness auto
termination
  by (relation "measure (\<lambda>(step, current, endTime). nat (endTime - current + 1))") auto

definition eachDayOfInterval :: "int \<Rightarrow> int \<Rightarrow> int list" where
  "eachDayOfInterval start endDate = stepDates day_ms (startOfDay start) endDate"

definition eachWeekOfInterval :: "int \<Rightarrow> int \<Rightarrow> int list" where
  \<comment> \<open>Weeks start on Sunday, the default.\<close>
  "eachWeekOfInterval start endDate =
     stepDates (7 * day_ms) (startOfWeek 0 start) (startOfWeek 0 endDate)"

section \<open>Time buckets\<close>

subsection \<open>Numbers that a division can give\<close>

datatype jsnum = NaN_num | PosInf | NegInf | Fin real

definition js_div :: "real \<Rightarrow> real \<Rightarrow> jsnum" where
  \<comment> \<open>\<^verbatim>\<open>a / b\<close> on numbers: a division by 0 gives an infinity, or NaN for 0 / 0.\<close>
  "js_div a b =
     (if b \<noteq> 0 then Fin (a / b)
      else if a > 0 then PosInf else if a < 0 then NegInf else NaN_num)"

definition jround1 :: "jsnum \<Rightarrow> jsnum" where
  \<comment> \<open>\<^verbatim>\<open>Math.round(x * 10) / 10\<close>, which leaves NaN and the infinities as they are.\<close>
  "jround1 x = (case x of Fin v \<Rightarrow> Fin (round1 v) | _ \<Rightarrow> x)"

definition jtruthy :: "jsnum \<Rightarrow> bool" where
  \<comment> \<open>0 and NaN are falsy.\<close>
  "jtruthy x = (case x of Fin v \<Rightarrow> v \<noteq> 0 | NaN_num \<Rightarrow> False | _ \<Rightarrow> True)"

subsection \<open>Running activities\<close>

definition toLowerCase :: "string \<Rightarrow> string" where
  \<comment> \<open>On the letters A to Z; the lower-case letter is 32 above, which is bit 5 set.\<close>
  "toLowerCase s =
     map (\<lambda>c. let n = of_char c :: nat in
               if 65 \<le> n \<and> n \<le> 90
               then (case c of Char b0 b1 b2 b3 b4 b5 b6 b7 \<Rightarrow> Char b0 b1 b2 b3 b4 True b6 b7)
               else c) s"

definition trim :: "string \<Rightarrow> string" where
  "trim s = rev (dropWhile isWhiteSpace (rev (dropWhile isWhiteSpace s)))"

fun includes_str :: "string \<Rightarrow> string \<Rightarrow> bool" where
  \<comment> \<open>\<^verbatim>\<open>s.includes(sub)\<close>\<close>
  "includes_str [] sub = (sub = [])"
| "includes_str (x # xs) sub = (take (length sub) (x # xs) = sub \<or> includes_str xs sub)"

definition isRunningActivity :: "string \<Rightarrow> bool" where
  "isRunningActivity activityType =
     (if activityType = [] then False
      else let type = trim (toLowerCase activityType)
           in includes_str type ''run'' \<and> \<not> includes_str type ''walk''
              \<and> \<not> includes_str type ''hike'')"

definition since2016 :: "activity \<Rightarrow> bool" where
  \<comment> \<open>\<^verbatim>\<open>act.date.getFullYear() >= 2016\<close>, false for Invalid Date.\<close>
  "since2016 act = (case Activity_Date act of None \<Rightarrow> False | Some t \<Rightarrow> getFullYear t \<ge> 2016)"

definition runningActivities :: "activity list \<Rightarrow> activity list" where
  \<comment> \<open>\<^verbatim>\<open>data.activities.filter(isRunningActivity).map(...).filter(year >= 2016)\<close>. The
      map adds the fields \<^verbatim>\<open>date\<close>, \<^verbatim>\<open>distance\<close>, \<^verbatim>\<open>hours\<close> and \<^verbatim>\<open>isTrail\<close>, which are
      \<open>Activity_Date\<close>, \<open>distance\<close>, \<open>hours\<close> and \<open>isTrailRun\<close> of the activity.\<close>
  "runningActivities activities =
     filter since2016 (filter (\<lambda>act. isRunningActivity (Activity_Type act)) activities)"

definition activitiesWithin :: "int \<Rightarrow> int \<Rightarrow> activity list \<Rightarrow> activity list" where
  \<comment> \<open>\<^verbatim>\<open>.filter(act => isWithinInterval(act.date, { start, end }))\<close>\<close>
  "activitiesWithin start endDate acts = filter (\<lambda>act. isWithinInterval (Activity_Date act) start endDate) acts"

definition sumOf :: "(activity \<Rightarrow> real) \<Rightarrow> activity list \<Rightarrow> real" where
  \<comment> \<open>\<^verbatim>\<open>acts.reduce((sum, act) => sum + f(act), 0)\<close>\<close>
  "sumOf f acts = foldl (\<lambda>sum act. sum + f act) 0 acts"

subsection \<open>The statistics of one period\<close>

record stats =
  runs :: nat
  totalMiles :: real          \<comment> \<open>\<^verbatim>\<open>totalMiles\<close>, \<^verbatim>\<open>runningMiles\<close> or \<^verbatim>\<open>miles\<close>, by level\<close>
  trailMiles :: real
  roadMiles :: real
  totalHours :: real          \<comment> \<open>\<^verbatim>\<open>totalHours\<close>, \<^verbatim>\<open>runningHours\<close> or \<^verbatim>\<open>hours\<close>, by level\<close>
  trailPace :: "jsnum option" \<comment> \<open>\<open>None\<close> is null\<close>
  roadPace :: "jsnum option"

definition pace :: "real \<Rightarrow> real \<Rightarrow> jsnum option" where
  \<comment> \<open>\<^verbatim>\<open>miles > 0 ? (hours * 60) / miles : null\<close>\<close>
  "pace miles hrs = (if miles > 0 then Some (js_div (hrs * 60) miles) else None)"

definition paceField :: "jsnum option \<Rightarrow> jsnum option" where
  \<comment> \<open>\<^verbatim>\<open>pace ? Math.round(pace * 10) / 10 : null\<close>\<close>
  "paceField p =
     (case p of None \<Rightarrow> None
      | Some x \<Rightarrow> if jtruthy x then Some (jround1 x) else None)"

definition periodStats :: "activity list \<Rightarrow> stats" where
  \<comment> \<open>The reduction that the yearly, weekly and daily levels each write out, on the
      activities of the period.\<close>
  "periodStats periodActivities =
     (let totalMiles = sumOf distance periodActivities;
          totalHours = sumOf hours periodActivities;
          trailActivities = filter isTrailRun periodActivities;
          roadActivities = filter (\<lambda>act. \<not> isTrailRun act) periodActivities;
          trailMiles = sumOf distance trailActivities;
          roadMiles = sumOf distance roadActivities;
          trailHours = sumOf hours trailActivities;
          roadHours = sumOf hours roadActivities;
          trailPace = pace trailMiles trailHours;
          roadPace = pace roadMiles roadHours
      in \<lparr>runs = length periodActivities,
          totalMiles = round1 totalMiles,
          trailMiles = round1 trailMiles,
          roadMiles = round1 roadMiles,
          totalHours = round1 totalHours,
          trailPace = paceField trailPace,
          roadPace = paceField roadPace\<rparr>)"

definition monthStats :: "activity list \<Rightarrow> stats" where
  \<comment> \<open>The monthly level of the chart adds the trail and road miles for
      \<^verbatim>\<open>runningMiles\<close>.\<close>
  "monthStats monthRunning =
     (let monthTrail = filter isTrailRun monthRunning;
          monthRoad = filter (\<lambda>act. \<not> isTrailRun act) monthRunning;
          trailMiles = sumOf distance monthTrail;
          roadMiles = sumOf distance monthRoad;
          trailHours = sumOf hours monthTrail;
          roadHours = sumOf hours monthRoad;
          trailPace = pace trailMiles trailHours;
          roadPace = pace roadMiles roadHours
      in \<lparr>runs = length monthRunning,
          totalMiles = round1 (trailMiles + roadMiles),
          trailMiles = round1 trailMiles,
          roadMiles = round1 roadMiles,
          totalHours = round1 (sumOf hours monthRunning),
          trailPace = paceField trailPace,
          roadPace = paceField roadPace\<rparr>)"

subsection \<open>The four levels of the interactive chart\<close>

datatype DrillDownLevel = Years | Months | Weeks | Days

record yearly = stats +
  year :: int

record monthly = stats +
  monthNumber :: nat

record weekly = stats +
  weekIndex :: nat
  weekStart :: int

record daily = stats +
  fullDate :: int

definition availableYears :: "activity list \<Rightarrow> int list" where
  \<comment> \<open>The years from 2016 on that have a running activity, in ascending order.\<close>
  "availableYears activities =
     sort (remdups
       (map (\<lambda>act. getFullYear (the (Activity_Date act)))
         (filter since2016 (filter (\<lambda>act. isRunningActivity (Activity_Type act)) activities))))"

definition yearlyData :: "DrillDownLevel \<Rightarrow> activity list \<Rightarrow> yearly list" where
  "yearlyData drillDownLevel activities =
     (if drillDownLevel \<noteq> Years then []
      else map (\<lambda>y.
             let yearStart = startOfYear (mkDate y 0 1);
                 yearEnd = endOfYear yearStart;
                 yearActivities = activitiesWithin yearStart yearEnd (runningActivities activities)
             in stats.extend (periodStats yearActivities) (yearly.fields y))
           (sort (availableYears activities)))"

definition monthlyData :: "DrillDownLevel \<Rightarrow> int \<Rightarrow> activity list \<Rightarrow> monthly list" where
  "monthlyData drillDownLevel currentYear activities =
     (if drillDownLevel \<noteq> Months then []
      else let yearStart = startOfYear (mkDate currentYear 0 1);
               yearEnd = endOfYear yearStart;
               running = activitiesWithin yearStart yearEnd (runningActivities activities)
           in map (\<lambda>month.
                let monthStart = startOfMonth (mkDate currentYear (int month) 1);
                    monthEnd = endOfMonth monthStart;
                    monthRunning = activitiesWithin monthStart monthEnd running
                in stats.extend (monthStats monthRunning) (monthly.fields month))
              [0..<12])"

definition weeklyData ::
    "DrillDownLevel \<Rightarrow> int \<Rightarrow> nat option \<Rightarrow> activity list \<Rightarrow> weekly list" where
  "weeklyData drillDownLevel currentYear selectedMonth activities =
     (case selectedMonth of
        None \<Rightarrow> []
      | Some m \<Rightarrow>
          if drillDownLevel \<noteq> Weeks then []
          else let monthStart = mkDate currentYear (int m) 1;
                   monthEnd = mkDate currentYear (int m + 1) 0;
                   weeks = eachWeekOfInterval monthStart monthEnd;
                   running = activitiesWithin monthStart monthEnd (runningActivities activities)
               in map (\<lambda>index.
                    let weekStart = weeks ! index;
                        weekEnd = endOfWeek 0 weekStart;
                        weekActivities = activitiesWithin weekStart weekEnd running
                    in stats.extend (periodStats weekActivities) (weekly.fields index weekStart))
                  [0..<length weeks])"

definition dailyData :: "DrillDownLevel \<Rightarrow> int option \<Rightarrow> activity list \<Rightarrow> daily list" where
  \<comment> \<open>\<^verbatim>\<open>selectedWeek\<close> is given by its \<^verbatim>\<open>weekStart\<close>. The list of the day's activities
      for the tooltip is left out.\<close>
  "dailyData drillDownLevel selectedWeek activities =
     (case selectedWeek of
        None \<Rightarrow> []
      | Some selectedWeekStart \<Rightarrow>
          if drillDownLevel \<noteq> Days then []
          else let weekEnd = endOfWeek 0 selectedWeekStart;
                   days = eachDayOfInterval selectedWeekStart weekEnd;
                   running = activitiesWithin selectedWeekStart weekEnd (runningActivities activities)
               in map (\<lambda>day.
                    let dayActivities = filter (\<lambda>act. isSameDay (Activity_Date act) day) running
                    in stats.extend (periodStats dayActivities) (daily.fields day))
                  days)"

subsection \<open>The season view\<close>

record monthly_season = stats +
  season_monthNumber :: nat      \<comment> \<open>\<^verbatim>\<open>monthNumber\<close>\<close>
  allActivities :: nat
  allHours :: real
  avgPace :: "jsnum option"

definition allSince2016 :: "activity list \<Rightarrow> activity list" where
  \<comment> \<open>\<^verbatim>\<open>data.activities.map(...).filter(year >= 2016)\<close>: the activities of every type.\<close>
  "allSince2016 activities = filter since2016 activities"

definition monthlyData_season :: "int \<Rightarrow> activity list \<Rightarrow> monthly_season list" where
  \<comment> \<open>\<^verbatim>\<open>monthlyData\<close> of the season view. The end of the month is
      \<^verbatim>\<open>new Date(selectedYear, month + 1, 0)\<close>, the first millisecond of its last day.\<close>
  "monthlyData_season selectedYear activities =
     (let yearStart = startOfYear (mkDate selectedYear 0 1);
          yearEnd = endOfYear yearStart;
          running = activitiesWithin yearStart yearEnd (runningActivities activities);
          everything = activitiesWithin yearStart yearEnd (allSince2016 activities)
      in map (\<lambda>month.
           let monthStart = mkDate selectedYear (int month) 1;
               monthEnd = mkDate selectedYear (int month + 1) 0;
               monthRunning = activitiesWithin monthStart monthEnd running;
               monthAll = activitiesWithin monthStart monthEnd everything;
               monthTrail = filter isTrailRun monthRunning;
               monthRoad = filter (\<lambda>act. \<not> isTrailRun act) monthRunning;
               trailMiles = sumOf distance monthTrail;
               roadMiles = sumOf distance monthRoad;
               totalRunningHours = sumOf hours monthRunning;
               totalRunningMiles = sumOf distance monthRunning;
               avgPace = (if totalRunningMiles > 0
                          then js_div (totalRunningHours * 60) totalRunningMiles else Fin 0);
               trailHours = sumOf hours monthTrail;
               roadHours = sumOf hours monthRoad;
               trailPace = pace trailMiles trailHours;
               roadPace = pace roadMiles roadHours
           in \<lparr>runs = length monthRunning,
               totalMiles = round1 totalRunningMiles,
               trailMiles = round1 trailMiles,
               roadMiles = round1 roadMiles,
               totalHours = round1 totalRunningHours,
               trailPace = paceField trailPace,
               roadPace = paceField roadPace,
               season_monthNumber = month,
               allActivities = length monthAll,
               allHours = round1 (sumOf hours monthAll),
               avgPace = (case avgPace of
                            Fin v \<Rightarrow> if v > 0 then Some (Fin (round1 v)) else None
                          | PosInf \<Rightarrow> Some PosInf
                          | _ \<Rightarrow> None)\<rparr>)
         [0..<12])"

definition runningStats_avgPace :: "int \<Rightarrow> activity list \<Rightarrow> jsnum" where
  \<comment> \<open>The field \<^verbatim>\<open>avgPace\<close> of \<^verbatim>\<open>runningStats\<close>:
      \<^verbatim>\<open>const avgPace = totalHours > 0 ? (totalHours * 60) / totalMiles : 0;\<close> and
      \<^verbatim>\<open>avgPace: Math.round(avgPace * 10) / 10\<close>.\<close>
  "runningStats_avgPace selectedYear activities =
     (let yearStart = startOfYear (mkDate selectedYear 0 1);
          yearEnd = endOfYear yearStart;
          yearActivities = activitiesWithin yearStart yearEnd (runningActivities activities);
          totalMiles = sumOf distance yearActivities;
          totalHours = sumOf hours yearActivities;
          avgPace = (if totalHours > 0 then js_div (totalHours * 60) totalMiles else Fin 0)
      in jround1 avgPace)"

section \<open>The weekly summary\<close>

record StravaActivity =
  strava_distance :: real                   \<comment> \<open>\<^verbatim>\<open>distance\<close>, metres\<close>
  moving_time :: real                       \<comment> \<open>seconds\<close>
  total_elevation_gain :: "real option"     \<comment> \<open>metres\<close>
  start_date :: "int option"                \<comment> \<open>\<^verbatim>\<open>new Date(activity.start_date)\<close>; \<open>None\<close> is Invalid Date\<close>

record WeeklySummary =
  week :: int                 \<comment> \<open>the start of the week, which the source formats as \<^verbatim>\<open>yyyy-MM-dd\<close>\<close>
  weekLabel :: string
  summaryMiles :: real        \<comment> \<open>\<^verbatim>\<open>totalMiles\<close>\<close>
  totalTime :: real           \<comment> \<open>minutes\<close>
  runCount :: nat
  summaryPace :: real         \<comment> \<open>\<^verbatim>\<open>avgPace\<close>, minutes per mile\<close>
  totalElevation :: real

fun show_nat :: "nat \<Rightarrow> string" where
  \<comment> \<open>The decimal digits of a number, as a template literal prints it.\<close>
  "show_nat n =
     (if n < 10 then [char_of (48 + n)] else show_nat (n div 10) @ [char_of (48 + n mod 10)])"

declare show_nat.simps [simp del]

definition Math_round :: "real \<Rightarrow> real" where
  "Math_round x = real_of_int \<lfloor>x + 1 / 2\<rfloor>"

definition generateWeeklySummaries :: "int \<Rightarrow> StravaActivity list \<Rightarrow> WeeklySummary list" where
  \<comment> \<open>\<open>now\<close> is \<^verbatim>\<open>new Date()\<close>, taken to be the same in the four rounds of the
      loop, which runs \<open>i\<close> from 3 down to 0.\<close>
  "generateWeeklySummaries now activities =
     map (\<lambda>i.
        let weekStart = startOfWeek 1 (subWeeks now (int i));
            weekEnd = endOfWeek 1 weekStart;
            weekActivities = filter (\<lambda>activity.
                case start_date activity of
                  None \<Rightarrow> False
                | Some activityDate \<Rightarrow> activityDate \<ge> weekStart \<and> activityDate \<le> weekEnd) activities;
            totalDistance = foldl (\<lambda>sum act. sum + strava_distance act) 0 weekActivities;
            totalMiles = totalDistance / 1609.34;
            totalTimeSeconds = foldl (\<lambda>sum act. sum + moving_time act) 0 weekActivities;
            totalTime = totalTimeSeconds / 60;
            runCount = length weekActivities;
            totalElevation = foldl (\<lambda>sum act. sum + or0 (total_elevation_gain act)) 0 weekActivities;
            avgPace = (if totalMiles > 0 then totalTime / totalMiles else 0)
        in \<lparr>week = weekStart,
            weekLabel = (if i = 0 then ''This Week'' else if i = 1 then ''Last Week''
                         else show_nat i @ '' weeks ago''),
            summaryMiles = round1 totalMiles,
            totalTime = Math_round totalTime,
            runCount = runCount,
            summaryPace = Math_round (avgPace * 100) / 100,
            totalElevation = Math_round (totalElevation * 3.28084)\<rparr>)
       [3, 2, 1, 0]"

subsection \<open>Comparisons used to state the results\<close>

fun jle :: "jsint \<Rightarrow> jsint \<Rightarrow> bool" where
  \<comment> \<open>\<^verbatim>\<open>a <= b\<close>, false when either side is NaN.\<close>
  "jle (Num a) (Num b) = (a \<le> b)"
| "jle _ _ = False"



definition inWeek :: "int \<Rightarrow> StravaActivity \<Rightarrow> bool" where
  \<comment> \<open>The activity starts in the seven days from \<open>monday\<close> on.\<close>
  "inWeek monday activity =
     (case start_date activity of
        None \<Rightarrow> False
      | Some t \<Rightarrow> monday \<le> t \<and> t < monday + 7 * day_ms)"

definition nonneg_or_null :: "jsnum option \<Rightarrow> bool" where
  \<comment> \<open>A pace field that is null or a number that is not negative.\<close>
  "nonneg_or_null p = (case p of None \<Rightarrow> True | Some (Fin v) \<Rightarrow> 0 \<le> v | Some _ \<Rightarrow> False)"

definition empty_stats :: "'a stats_scheme \<Rightarrow> bool" where
  \<comment> \<open>The statistics of a period without activities: zero miles and hours, null paces.\<close>
  "empty_stats b = (totalMiles b = 0 \<and> trailMiles b = 0 \<and> roadMiles b = 0 \<and> totalHours b = 0
      \<and> trailPace b = None \<and> roadPace b = None)"

subsection \<open>Sample races\<close>

definition raceA :: race where
  "raceA = \<lparr>race_date = 1, race_distance = 26.2, race_time = ''3:45:00'', race_name = ''A'',
      overall_place = None, division_place = None\<rparr>"

definition raceB :: race where
  "raceB = \<lparr>race_date = 2, race_distance = 26.2, race_time = ''3:30:00'', race_name = ''B'',
      overall_place = None, division_place = None\<rparr>"

definition raceC :: race where
  "raceC = \<lparr>race_date = 3, race_distance = 26.2, race_time = ''4:00:00'', race_name = ''C'',
      overall_place = None, division_place = None\<rparr>"


text \<open>
  Three runs of 2024: a trail run of 10 miles in 100 minutes; a run of 10 miles whose
  moving time is recorded as 1 second; and a run with a moving time and no distance.
\<close>

definition trailRun :: activity where
  "trailRun = \<lparr>Activity_Type = ''Trail Run'', Activity_Date = Some (mkDate 2024 5 15 + 32400000),
      Distance = Miles 10, Distance_1 = None, Moving_Time = Some 6000,
      Elevation_Gain = Some 600, Dirt_Distance = Some 1609.34\<rparr>"

definition glitchRun :: activity where
  "glitchRun = \<lparr>Activity_Type = ''Run'', Activity_Date = Some (mkDate 2024 5 15 + 32400000),
      Distance = Miles 10, Distance_1 = None, Moving_Time = Some 1,
      Elevation_Gain = Some 600, Dirt_Distance = None\<rparr>"

definition treadmillRun :: activity where
  "treadmillRun = \<lparr>Activity_Type = ''Run'', Activity_Date = Some (mkDate 2024 0 10 + 32400000),
      Distance = Miles 0, Distance_1 = None, Moving_Time = Some 1800,
      Elevation_Gain = None, Dirt_Distance = None\<rparr>"


section \<open>Theorems\<close>

subsection \<open>Terrain classification\<close>

text \<open>
  C1. For an activity whose normalised distance is not negative (the data model's
  \<open>distanceMiles \<ge> 0\<close>), the classifier answers trail exactly when the elevation gain
  per mile is above 50 or the dirt share of the distance, in percent, is above 50, both
  ratios being 0 at distance 0; and an activity of distance 0 is never trail.
\<close>

lemma totalDistance_distance:
  "distance a = (case totalDistance a of None \<Rightarrow> 0 | Some d \<Rightarrow> d)"
  by (simp add: distance_def totalDistance_def split: distance_str.splits)

theorem isTrailRun_iff:
  assumes "0 \<le> distance a"
  shows "(isTrailRun a \<longleftrightarrow>
            ratio0 (elevationGainFeet a) (distance a) > 50
          \<or> ratio0 (dirtDistanceMiles a) (distance a) * 100 > 50)
       \<and> (distance a = 0 \<longrightarrow> \<not> isTrailRun a)"
proof (cases "totalDistance a")
  case None
  then show ?thesis
    using totalDistance_distance [of a]
    by (simp add: isTrailRun_def positive_def ratio0_def)
next
  case (Some d)
  with assms totalDistance_distance [of a] have d: "distance a = d" "0 \<le> d"
    by simp_all
  show ?thesis
  proof (cases "d = 0")
    case True
    with Some d show ?thesis
      by (simp add: isTrailRun_def positive_def ratio0_def)
  next
    case False
    with d have "0 < d" by simp
    with Some d show ?thesis
      by (simp add: isTrailRun_def positive_def ratio0_def elevationGainFeet_def
            dirtDistanceMiles_def)
  qed
qed

theorem isTrailRun_iff_witness:
  "distance \<lparr>Activity_Type = ''Run'', Activity_Date = Some 0, Distance = Miles 10,
      Distance_1 = None, Moving_Time = Some 3600, Elevation_Gain = Some 100,
      Dirt_Distance = Some 9656.04\<rparr> = 10
   \<and> isTrailRun \<lparr>Activity_Type = ''Run'', Activity_Date = Some 0, Distance = Miles 10,
      Distance_1 = None, Moving_Time = Some 3600, Elevation_Gain = Some 100,
      Dirt_Distance = Some 9656.04\<rparr>
   \<and> distance \<lparr>Activity_Type = ''Run'', Activity_Date = Some 0, Distance = Absent,
      Distance_1 = Some 0, Moving_Time = Some 3600, Elevation_Gain = Some 600,
      Dirt_Distance = Some 5000\<rparr> = 0
   \<and> \<not> isTrailRun \<lparr>Activity_Type = ''Run'', Activity_Date = Some 0, Distance = Absent,
      Distance_1 = Some 0, Moving_Time = Some 3600, Elevation_Gain = Some 600,
      Dirt_Distance = Some 5000\<rparr>"
proof -
  let ?a = "\<lparr>Activity_Type = ''Run'', Activity_Date = Some 0, Distance = Miles 10,
      Distance_1 = None, Moving_Time = Some 3600, Elevation_Gain = Some 100,
      Dirt_Distance = Some 9656.04\<rparr>"
  let ?b = "\<lparr>Activity_Type = ''Run'', Activity_Date = Some 0, Distance = Absent,
      Distance_1 = Some 0, Moving_Time = Some 3600, Elevation_Gain = Some 600,
      Dirt_Distance = Some 5000\<rparr>"
  have da: "distance ?a = 10" and db: "distance ?b = 0"
    by (simp_all add: distance_def truthy_def or0_def)
  have "isTrailRun ?a"
    using isTrailRun_iff [of ?a] da
    by (simp add: ratio0_def elevationGainFeet_def dirtDistanceMiles_def or0_def)
  moreover have "\<not> isTrailRun ?b"
    using isTrailRun_iff [of ?b, THEN conjunct2] db by simp
  ultimately show ?thesis using da db by blast
qed

subsection \<open>Medals\<close>

text \<open>
  C8. For a race whose overall place, when recorded, is a rank (at least 1), both race
  tables show gold when the overall place is at most 3, whatever the divisional place;
  otherwise the divisional place 1, 2 or 3 selects gold, silver or bronze; and no medal
  is shown in any other case.
\<close>

theorem medal_shown_policy:
  assumes "\<And>p. overall_place r = Some p \<Longrightarrow> 1 \<le> p"
  shows "medalShown getMedalEmoji r = medal_policy r
       \<and> medalShown getMedalEmoji_season r = medal_policy r"
proof (cases "overall_place r")
  case None
  then show ?thesis
    by (auto simp: medalShown_def getMedalEmoji_def getMedalEmoji_season_def
          medal_policy_def isPodium_def isAgGroupPodium_def split: option.splits)
next
  case (Some p)
  with assms have "1 \<le> p" by simp
  with Some show ?thesis
    by (auto simp: medalShown_def getMedalEmoji_def getMedalEmoji_season_def
          medal_policy_def isPodium_def isAgGroupPodium_def split: option.splits)
qed

theorem medal_shown_policy_witness:
  "medalShown getMedalEmoji
     \<lparr>race_date = 0, race_distance = 13.1, race_time = ''1:30:00'', race_name = ''Half'',
      overall_place = Some 2, division_place = Some 3\<rparr> = Some Gold
   \<and> medalShown getMedalEmoji_season
     \<lparr>race_date = 0, race_distance = 13.1, race_time = ''1:30:00'', race_name = ''Half'',
      overall_place = Some 40, division_place = Some 3\<rparr> = Some Bronze"
proof -
  let ?r = "\<lparr>race_date = 0, race_distance = 13.1, race_time = ''1:30:00'', race_name = ''Half'',
      overall_place = Some 2, division_place = Some (3::int)\<rparr>"
  let ?s = "\<lparr>race_date = 0, race_distance = 13.1, race_time = ''1:30:00'', race_name = ''Half'',
      overall_place = Some 40, division_place = Some (3::int)\<rparr>"
  have "medalShown getMedalEmoji ?r = medal_policy ?r"
    using medal_shown_policy [of ?r] by simp
  moreover have "medalShown getMedalEmoji_season ?s = medal_policy ?s"
    using medal_shown_policy [of ?s] by simp
  ultimately show ?thesis by (simp add: medal_policy_def)
qed

subsection \<open>Distance classes\<close>




subsection \<open>Race times\<close>
















subsection \<open>Personal records\<close>






subsection \<open>Progression\<close>

lemma foldl_jmin_Num: "foldl jmin (Num x) (map Num ys) = Num (fold min ys x)"
  by (induction ys arbitrary: x) (simp_all add: min.commute)

lemma Math_min_Num: "Math_min (Num x) (map Num ys) = Num (Min (set (x # ys)))"
  by (simp only: Math_min_def foldl_jmin_Num Min.set_eq_fold)

lemma filteredRaces_valid:
  "(r, t) \<in> set (filteredRaces races target) \<Longrightarrow> \<exists>n. t = Num n \<and> 0 < n"
proof -
  assume "(r, t) \<in> set (filteredRaces races target)"
  then have "t = labSeconds r" "jlt (Num 0) (labSeconds r)"
    by (auto simp: filteredRaces_def)
  then show ?thesis by (cases "labSeconds r") auto
qed

lemma filteredRaces_sorted:
  "sorted (map (\<lambda>p. race_date (fst p)) (filteredRaces races target))"
  unfolding filteredRaces_def
  by (simp add: case_prod_unfold)

lemma all_Num_list:
  "(\<And>t. t \<in> set xs \<Longrightarrow> \<exists>n. t = Num n \<and> 0 < n) \<Longrightarrow> \<exists>ts. xs = map Num ts \<and> (\<forall>n \<in> set ts. 0 < n)"
proof (induction xs)
  case Nil
  then show ?case by simp
next
  case (Cons x xs)
  then obtain ts where ts: "xs = map Num ts" "\<forall>n \<in> set ts. 0 < n" by auto
  from Cons.prems [of x] obtain n where "x = Num n" "0 < n" by auto
  with ts have "x # xs = map Num (n # ts) \<and> (\<forall>k \<in> set (n # ts). 0 < k)" by simp
  then show ?case by (rule exI)
qed

lemma filteredRaces_times:
  "\<exists>ts. map snd (filteredRaces races target) = map Num ts \<and> (\<forall>n \<in> set ts. 0 < n)"
proof (rule all_Num_list)
  fix t assume "t \<in> set (map snd (filteredRaces races target))"
  then obtain r where "(r, t) \<in> set (filteredRaces races target)" by auto
  then show "\<exists>n. t = Num n \<and> 0 < n" by (rule filteredRaces_valid)
qed

lemma running_min:
  assumes "map snd rs = map Num ts" "i < length rs"
  shows "(if i = 0 then snd (rs ! i) else Math_min (snd (rs ! i)) (map snd (take i rs)))
         = Num (Min (set (take (Suc i) ts)))"
proof -
  have len: "length ts = length rs" using assms(1) by (metis length_map)
  have nth: "snd (rs ! i) = Num (ts ! i)"
    using assms len by (metis nth_map)
  have tk: "map snd (take i rs) = map Num (take i ts)"
    using assms(1) by (simp add: take_map [symmetric])
  have s: "set (take (Suc i) ts) = insert (ts ! i) (set (take i ts))"
    using assms(2) len by (simp add: take_Suc_conv_app_nth)
  show ?thesis
  proof (cases "i = 0")
    case True
    with nth s show ?thesis by simp
  next
    case False
    then show ?thesis
      by (simp only: nth tk Math_min_Num s if_False list.set)
  qed
qed

lemma raceProgressData_Some:
  "raceProgressData races (Some label) =
     (let rs = filteredRaces races (getDistanceValue label)
      in map (\<lambda>index.
                    \<lparr>raceNumber = index + 1,
                     raceName = race_name (fst (rs ! index)),
                     date = race_date (fst (rs ! index)),
                     timeSeconds = snd (rs ! index),
                     personalBest =
                       (if index = 0 then snd (rs ! index)
                        else Math_min (snd (rs ! index)) (map snd (take index rs)))\<rparr>)
                 [0..<length rs])"
  by (simp add: raceProgressData_def)

lemma progress_of_races:
  assumes "map snd rs = map Num ts"
  defines "out \<equiv> map (\<lambda>index.
                    \<lparr>raceNumber = index + 1,
                     raceName = race_name (fst (rs ! index)),
                     date = race_date (fst (rs ! index)),
                     timeSeconds = snd (rs ! index),
                     personalBest =
                       (if index = 0 then snd (rs ! index)
                        else Math_min (snd (rs ! index)) (map snd (take index rs)))\<rparr>)
                 [0..<length rs]"
  shows "length out = length ts"
    and "map timeSeconds out = map Num ts"
    and "map date out = map (\<lambda>p. race_date (fst p)) rs"
    and "i < length ts \<Longrightarrow> personalBest (out ! i) = Num (Min (set (take (Suc i) ts)))"
    and "i < length ts \<Longrightarrow> timeSeconds (out ! i) = Num (ts ! i)"
proof -
  have len: "length ts = length rs" using assms(1) by (metis length_map)
  show "length out = length ts" by (simp add: out_def len)
  have "map timeSeconds out = map (\<lambda>i. snd (rs ! i)) [0..<length rs]"
    by (simp add: out_def)
  also have "\<dots> = map snd rs"
    by (rule nth_equalityI) simp_all
  finally show ts: "map timeSeconds out = map Num ts" using assms(1) by simp
  have "map date out = map (\<lambda>i. race_date (fst (rs ! i))) [0..<length rs]"
    by (simp add: out_def)
  also have "\<dots> = map (\<lambda>p. race_date (fst p)) rs"
    by (rule nth_equalityI) simp_all
  finally show "map date out = map (\<lambda>p. race_date (fst p)) rs" .
  show "personalBest (out ! i) = Num (Min (set (take (Suc i) ts)))" if "i < length ts"
  proof -
    from that len have i: "i < length rs" by simp
    then have *: "map f [0..<length rs] ! i = f i" for f :: "nat \<Rightarrow> progress"
      by simp
    have "personalBest (out ! i) =
       (if i = 0 then snd (rs ! i) else Math_min (snd (rs ! i)) (map snd (take i rs)))"
      unfolding out_def * by simp
    with running_min [OF assms(1) i] show ?thesis by simp
  qed
  show "timeSeconds (out ! i) = Num (ts ! i)" if "i < length ts"
  proof -
    from that len have *: "map f [0..<length rs] ! i = f i" for f :: "nat \<Rightarrow> progress"
      by simp
    have "timeSeconds (out ! i) = snd (rs ! i)" unfolding out_def * by simp
    also have "\<dots> = Num (ts ! i)" using assms(1) that len by (metis nth_map)
    finally show ?thesis .
  qed
qed

lemma Min_take_le: "i < length ts \<Longrightarrow> Min (set (take (Suc i) ts)) \<le> (ts ! i :: int)"
  by (rule Min_le) (simp_all add: take_Suc_conv_app_nth)

lemma Min_take_mono:
  "i \<le> j \<Longrightarrow> j < length ts \<Longrightarrow> Min (set (take (Suc j) ts)) \<le> (Min (set (take (Suc i) ts)) :: int)"
proof (rule Min_antimono)
  assume "i \<le> j" "j < length ts"
  then show "set (take (Suc i) ts) \<subseteq> set (take (Suc j) ts)"
    by (simp add: set_take_subset_set_take)
  show "set (take (Suc i) ts) \<noteq> {}" using \<open>i \<le> j\<close> \<open>j < length ts\<close> by auto
  show "finite (set (take (Suc j) ts))" by simp
qed

text \<open>
  C3. The progression series of a selected distance is sorted by date; its times are
  numbers above 0; at every index the personal best is the minimum of the times up to and
  including that index, so it is at most the time at that index and it never increases
  along the series.
\<close>

theorem progression_running_minimum:
  "\<exists>ts. map timeSeconds (raceProgressData races sel) = map Num ts
      \<and> length (raceProgressData races sel) = length ts
      \<and> (\<forall>n \<in> set ts. 0 < n)
      \<and> (\<forall>i < length ts.
            personalBest (raceProgressData races sel ! i) = Num (Min (set (take (Suc i) ts)))
          \<and> jle (personalBest (raceProgressData races sel ! i))
                (timeSeconds (raceProgressData races sel ! i)))
      \<and> (\<forall>i j. i \<le> j \<and> j < length ts \<longrightarrow>
            jle (personalBest (raceProgressData races sel ! j))
                (personalBest (raceProgressData races sel ! i)))
      \<and> sorted (map date (raceProgressData races sel))"
proof (cases sel)
  case None
  then have "raceProgressData races sel = []" by (simp add: raceProgressData_def)
  then show ?thesis by simp
next
  case (Some label)
  define rs where "rs = filteredRaces races (getDistanceValue label)"
  obtain ts where ts: "map snd rs = map Num ts" "\<forall>n \<in> set ts. 0 < n"
    using filteredRaces_times [of races "getDistanceValue label"] rs_def by blast
  define out where "out = raceProgressData races sel"
  have out: "out = map (\<lambda>index.
                    \<lparr>raceNumber = index + 1,
                     raceName = race_name (fst (rs ! index)),
                     date = race_date (fst (rs ! index)),
                     timeSeconds = snd (rs ! index),
                     personalBest =
                       (if index = 0 then snd (rs ! index)
                        else Math_min (snd (rs ! index)) (map snd (take index rs)))\<rparr>)
                 [0..<length rs]"
    unfolding out_def Some raceProgressData_Some rs_def Let_def ..
  note p = progress_of_races [OF ts(1), folded out]
  have pb: "personalBest (out ! i) = Num (Min (set (take (Suc i) ts)))" if "i < length ts" for i
    using p(4) that .
  have tsec: "timeSeconds (out ! i) = Num (ts ! i)" if "i < length ts" for i
    using p(5) that .
  have a: "\<forall>i < length ts. personalBest (out ! i) = Num (Min (set (take (Suc i) ts)))
          \<and> jle (personalBest (out ! i)) (timeSeconds (out ! i))"
    using pb tsec Min_take_le by simp
  have b: "\<forall>i j. i \<le> j \<and> j < length ts \<longrightarrow> jle (personalBest (out ! j)) (personalBest (out ! i))"
    using pb Min_take_mono by simp
  have c: "sorted (map date out)"
    using p(3) filteredRaces_sorted [of races "getDistanceValue label"] rs_def by simp
  from p(1,2) ts(2) a b c show ?thesis unfolding out_def by blast
qed

theorem progression_running_minimum_witness:
  "personalBest (raceProgressData [raceC, raceA, raceB] (Some Marathon) ! 0) = Num 13500
   \<and> personalBest (raceProgressData [raceC, raceA, raceB] (Some Marathon) ! 1) = Num 12600
   \<and> personalBest (raceProgressData [raceC, raceA, raceB] (Some Marathon) ! 2) = Num 12600"
proof -
  let ?out = "raceProgressData [raceC, raceA, raceB] (Some Marathon)"
  have e: "map timeSeconds ?out = [Num 13500, Num 12600, Num 14400]"
    by code_simp
  from progression_running_minimum [of "[raceC, raceA, raceB]" "Some Marathon"]
  obtain ts where ts: "map timeSeconds ?out = map Num ts"
    and pb: "\<forall>i < length ts. personalBest (?out ! i) = Num (Min (set (take (Suc i) ts)))"
    by blast
  from ts e have t: "ts = [13500, 12600, 14400]"
    by (auto simp: map_eq_Cons_conv)
  from pb t show ?thesis by simp
qed

subsection \<open>Weeks\<close>

lemma day_ms_pos: "0 < day_ms" by (simp add: day_ms_def)

lemma startOfDay_mult: "startOfDay t = day_ms * (t div day_ms)"
  by (simp add: startOfDay_def minus_mod_eq_mult_div)

lemma div_day_shift: "(t + k * day_ms) div day_ms = t div day_ms + k"
  using day_ms_pos by simp

lemma mult_day_div: "(day_ms * q) div day_ms = q"
  using day_ms_pos by simp

lemma getDay_shift: "getDay (t + k * 7 * day_ms) = getDay t"
proof -
  have "(t + k * 7 * day_ms) div day_ms = t div day_ms + k * 7"
    using div_day_shift [of t "k * 7"] by simp
  moreover have "(t div day_ms + k * 7 + 4) mod 7 = (t div day_ms + 4) mod 7"
    by (metis add.assoc add.commute mod_mult_self1)
  ultimately show ?thesis unfolding getDay_def by simp
qed

lemma startOfDay_shift: "startOfDay (t + k * day_ms) = startOfDay t + k * day_ms"
  by (simp only: startOfDay_mult div_day_shift) (simp add: algebra_simps)

lemma startOfWeek_shift:
  "startOfWeek w (t + k * 7 * day_ms) = startOfWeek w t + k * 7 * day_ms"
  using startOfDay_shift [of t "k * 7"]
  by (simp add: startOfWeek_def Let_def getDay_shift)

lemma startOfWeek_subWeeks:
  "startOfWeek 1 (subWeeks t k) = startOfWeek 1 t - k * 7 * day_ms"
  using startOfWeek_shift [of 1 t "- k"] by (simp add: subWeeks_def)

lemma week_arith:
  fixes q w :: int
  assumes "0 \<le> w" "w < 7"
  defines "a \<equiv> (q + 4) mod 7"
  defines "diff \<equiv> (if a < w then 7 else 0) + a - w"
  shows "0 \<le> diff" and "diff < 7" and "(q - diff + 4) mod 7 = w"
proof -
  have a: "0 \<le> a" "a < 7" by (simp_all add: a_def)
  show "0 \<le> diff" "diff < 7" using a assms(1,2) by (simp_all add: diff_def)
  have e: "q + 4 = 7 * ((q + 4) div 7) + a" by (simp add: a_def)
  define c where "c = (q + 4) div 7 - (if a < w then 1 else 0)"
  have "q - diff + 4 = w + c * 7"
    using e by (simp add: diff_def c_def)
  then have "(q - diff + 4) mod 7 = w mod 7" by (simp only: mod_mult_self1)
  then show "(q - diff + 4) mod 7 = w" using assms(1,2) by simp
qed

lemma startOfWeek_props:
  assumes "0 \<le> w" "w < 7"
  shows "getDay (startOfWeek w t) = w"
    and "startOfDay (startOfWeek w t) = startOfWeek w t"
    and "startOfWeek w t \<le> t"
    and "t < startOfWeek w t + 7 * day_ms"
proof -
  define q where "q = t div day_ms"
  define r where "r = (if (q + 4) mod 7 < w then 7 else 0) + (q + 4) mod 7 - w"
  note ar = week_arith [OF assms, of q, folded r_def]
  have m: "startOfWeek w t = day_ms * (q - r)"
    by (simp add: startOfWeek_def Let_def getDay_def startOfDay_mult q_def r_def algebra_simps)
  have d: "startOfWeek w t div day_ms = q - r"
    unfolding m by (rule mult_day_div)
  show "getDay (startOfWeek w t) = w"
    unfolding getDay_def d by (rule ar(3))
  have "startOfDay (startOfWeek w t) = day_ms * (startOfWeek w t div day_ms)"
    by (rule startOfDay_mult)
  also have "\<dots> = day_ms * (q - r)" by (simp only: d)
  finally show "startOfDay (startOfWeek w t) = startOfWeek w t" by (simp only: m)
  have "t = day_ms * q + t mod day_ms" by (simp add: q_def)
  moreover have "0 \<le> t mod day_ms" "t mod day_ms < day_ms"
    using day_ms_pos by simp_all
  ultimately have t1: "day_ms * q \<le> t" "t < day_ms * q + day_ms"
    by linarith+
  have "day_ms * (q - r) \<le> day_ms * q"
    using day_ms_pos ar(1) by simp
  with t1 show "startOfWeek w t \<le> t" unfolding m by linarith
  have "day_ms * q + day_ms \<le> day_ms * (q - r) + 7 * day_ms"
  proof -
    have "day_ms * (q - r) + 7 * day_ms = day_ms * q + day_ms * (7 - r)"
      by (simp add: algebra_simps)
    moreover have "day_ms * 1 \<le> day_ms * (7 - r)"
      using day_ms_pos ar(2) by (intro mult_left_mono) simp_all
    ultimately show ?thesis by linarith
  qed
  with t1 show "t < startOfWeek w t + 7 * day_ms" unfolding m by linarith
qed

lemmas startOfWeek_Monday = startOfWeek_props [of 1, simplified]


lemma endOfWeek_start:
  assumes "getDay m = w" "startOfDay m = m"
  shows "endOfWeek w m = m + 7 * day_ms - 1"
  using assms by (simp add: endOfWeek_def Let_def)

lemmas endOfWeek_Monday = endOfWeek_start [of _ 1]

subsection \<open>The weekly summary\<close>

lemma show_nat_digits: "show_nat 3 = ''3''" "show_nat 2 = ''2''"
  by code_simp+

lemma week_filter:
  assumes "getDay m = 1" "startOfDay m = m"
  shows "filter (\<lambda>activity. case start_date activity of None \<Rightarrow> False
                | Some activityDate \<Rightarrow> activityDate \<ge> m \<and> activityDate \<le> endOfWeek 1 m) acts
         = filter (inWeek m) acts"
proof -
  have "(case start_date a of None \<Rightarrow> False
                | Some activityDate \<Rightarrow> activityDate \<ge> m \<and> activityDate \<le> endOfWeek 1 m)
        = inWeek m a" for a
    by (cases "start_date a") (auto simp: inWeek_def endOfWeek_Monday [OF assms])
  then show ?thesis by simp
qed

lemma summary_week:
  "week (generateWeeklySummaries now acts ! k) = startOfWeek 1 now - int (3 - k) * 7 * day_ms"
  "runCount (generateWeeklySummaries now acts ! k)
     = length (filter (inWeek (startOfWeek 1 now - int (3 - k) * 7 * day_ms)) acts)"
  if "k < 4"
proof -
  from that consider "k = 0" | "k = 1" | "k = 2" | "k = 3" by linarith
  then have k: "[3, 2, 1, 0::nat] ! k = 3 - k" by cases simp_all
  define i where "i = 3 - k"
  define m where "m = startOfWeek 1 (subWeeks now (int i))"
  have m': "m = startOfWeek 1 now - int i * 7 * day_ms"
    unfolding m_def by (rule startOfWeek_subWeeks)
  have mon: "getDay m = 1" "startOfDay m = m"
    unfolding m_def by (rule startOfWeek_Monday)+
  have nth: "generateWeeklySummaries now acts ! k =
     (let weekStart = startOfWeek 1 (subWeeks now (int i));
            weekEnd = endOfWeek 1 weekStart;
            weekActivities = filter (\<lambda>activity.
                case start_date activity of
                  None \<Rightarrow> False
                | Some activityDate \<Rightarrow> activityDate \<ge> weekStart \<and> activityDate \<le> weekEnd) acts;
            totalDistance = foldl (\<lambda>sum act. sum + strava_distance act) 0 weekActivities;
            totalMiles = totalDistance / 1609.34;
            totalTimeSeconds = foldl (\<lambda>sum act. sum + moving_time act) 0 weekActivities;
            totalTime = totalTimeSeconds / 60;
            runCount = length weekActivities;
            totalElevation = foldl (\<lambda>sum act. sum + or0 (total_elevation_gain act)) 0 weekActivities;
            avgPace = (if totalMiles > 0 then totalTime / totalMiles else 0)
        in \<lparr>week = weekStart,
            weekLabel = (if i = 0 then ''This Week'' else if i = 1 then ''Last Week''
                         else show_nat i @ '' weeks ago''),
            summaryMiles = round1 totalMiles,
            totalTime = Math_round totalTime,
            runCount = runCount,
            summaryPace = Math_round (avgPace * 100) / 100,
            totalElevation = Math_round (totalElevation * 3.28084)\<rparr>)"
    unfolding generateWeeklySummaries_def i_def k [symmetric]
    by (rule nth_map) (use that in simp)
  have nth': "week (generateWeeklySummaries now acts ! k) = m"
    "runCount (generateWeeklySummaries now acts ! k)
      = length (filter (\<lambda>activity. case start_date activity of None \<Rightarrow> False
                | Some activityDate \<Rightarrow> activityDate \<ge> m \<and> activityDate \<le> endOfWeek 1 m) acts)"
    unfolding nth Let_def m_def by simp_all
  show "week (generateWeeklySummaries now acts ! k) = startOfWeek 1 now - int (3 - k) * 7 * day_ms"
    unfolding nth'(1) m' i_def ..
  show "runCount (generateWeeklySummaries now acts ! k)
     = length (filter (inWeek (startOfWeek 1 now - int (3 - k) * 7 * day_ms)) acts)"
    unfolding nth'(2) week_filter [OF mon] unfolding m' i_def ..
qed

text \<open>
  C9. Whatever the activities, the weekly summary has exactly 4 buckets. They are the
  four Monday-starting weeks that end with the week containing \<open>now\<close>, oldest first:
  the bucket of the week that starts \<open>k\<close> weeks before this week's Monday counts the
  activities that start in that week, for \<open>k\<close> = 3, 2, 1, 0, and the labels are
  \<^verbatim>\<open>3 weeks ago\<close>, \<^verbatim>\<open>2 weeks ago\<close>, \<^verbatim>\<open>Last Week\<close>, \<^verbatim>\<open>This Week\<close>.
\<close>

theorem weekly_summaries_four_weeks:
  "length (generateWeeklySummaries now activities) = 4
   \<and> map weekLabel (generateWeeklySummaries now activities)
       = [''3 weeks ago'', ''2 weeks ago'', ''Last Week'', ''This Week'']
   \<and> map week (generateWeeklySummaries now activities)
       = map (\<lambda>k. startOfWeek 1 now - k * 7 * day_ms) [3, 2, 1, 0]
   \<and> map runCount (generateWeeklySummaries now activities)
       = map (\<lambda>k. length (filter (inWeek (startOfWeek 1 now - k * 7 * day_ms)) activities))
           [3, 2, 1, 0]
   \<and> getDay (startOfWeek 1 now) = 1
   \<and> startOfDay (startOfWeek 1 now) = startOfWeek 1 now
   \<and> startOfWeek 1 now \<le> now \<and> now < startOfWeek 1 now + 7 * day_ms"
proof -
  let ?out = "generateWeeklySummaries now activities"
  have len: "length ?out = 4" by (simp add: generateWeeklySummaries_def)
  have lab: "map weekLabel ?out = [''3 weeks ago'', ''2 weeks ago'', ''Last Week'', ''This Week'']"
    by (simp add: generateWeeklySummaries_def Let_def show_nat_digits)
  have wk: "map week ?out = map (\<lambda>k. startOfWeek 1 now - k * 7 * day_ms) [3, 2, 1, 0]"
  proof (rule nth_equalityI)
    show "length (map week ?out) = length (map (\<lambda>k. startOfWeek 1 now - k * 7 * day_ms) [3, 2, 1, 0])"
      using len by simp
    fix k assume "k < length (map week ?out)"
    then have k: "k < 4" using len by simp
    then consider "k = 0" | "k = 1" | "k = 2" | "k = 3" by linarith
    then have "map (\<lambda>k. startOfWeek 1 now - k * 7 * day_ms) [3, 2, 1, 0] ! k
        = startOfWeek 1 now - int (3 - k) * 7 * day_ms"
      by cases simp_all
    with summary_week(1) [OF k, of now activities] len k
    show "map week ?out ! k = map (\<lambda>k. startOfWeek 1 now - k * 7 * day_ms) [3, 2, 1, 0] ! k"
      by simp
  qed
  have rc: "map runCount ?out
       = map (\<lambda>k. length (filter (inWeek (startOfWeek 1 now - k * 7 * day_ms)) activities))
           [3, 2, 1, 0]"
  proof (rule nth_equalityI)
    show "length (map runCount ?out) = length (map (\<lambda>k. length (filter (inWeek (startOfWeek 1 now - k * 7 * day_ms)) activities)) [3, 2, 1, 0])"
      using len by simp
    fix k assume "k < length (map runCount ?out)"
    then have k: "k < 4" using len by simp
    then consider "k = 0" | "k = 1" | "k = 2" | "k = 3" by linarith
    then have "map (\<lambda>k. length (filter (inWeek (startOfWeek 1 now - k * 7 * day_ms)) activities)) [3, 2, 1, 0] ! k
        = length (filter (inWeek (startOfWeek 1 now - int (3 - k) * 7 * day_ms)) activities)"
      by cases simp_all
    with summary_week(2) [OF k, of now activities] len k
    show "map runCount ?out ! k = map (\<lambda>k. length (filter (inWeek (startOfWeek 1 now - k * 7 * day_ms)) activities)) [3, 2, 1, 0] ! k"
      by simp
  qed
  from len lab wk rc startOfWeek_Monday [of now] show ?thesis by blast
qed

subsection \<open>Statistics of a period\<close>

lemma extend_fields [simp]:
  "runs (stats.extend s e) = runs s"
  "totalMiles (stats.extend s e) = totalMiles s"
  "trailMiles (stats.extend s e) = trailMiles s"
  "roadMiles (stats.extend s e) = roadMiles s"
  "totalHours (stats.extend s e) = totalHours s"
  "trailPace (stats.extend s e) = trailPace s"
  "roadPace (stats.extend s e) = roadPace s"
  by (simp_all add: stats.defs)

lemma extend_more [simp]:
  "year (stats.extend s (yearly.fields y)) = y"
  "monthNumber (stats.extend s (monthly.fields n)) = n"
  "weekIndex (stats.extend s (weekly.fields i w)) = i"
  "weekStart (stats.extend s (weekly.fields i w)) = w"
  "fullDate (stats.extend s (daily.fields d)) = d"
  by (simp_all add: stats.defs yearly.defs monthly.defs weekly.defs daily.defs)

lemma sumOf_sum_list: "sumOf f xs = sum_list (map f xs)"
proof -
  have "foldl (\<lambda>sum act. sum + f act) z xs = z + sum_list (map f xs)" for z
    by (induction xs arbitrary: z) simp_all
  then show ?thesis by (simp add: sumOf_def)
qed

lemma sumOf_nonneg: "(\<And>a. a \<in> set xs \<Longrightarrow> 0 \<le> f a) \<Longrightarrow> 0 \<le> sumOf f xs"
  unfolding sumOf_sum_list by (rule sum_list_nonneg) auto

lemma round1_nonneg: "0 \<le> x \<Longrightarrow> 0 \<le> round1 x"
  by (simp add: round1_def)

lemma round1_0 [simp]: "round1 0 = 0"
  by (simp add: round1_def)

lemma paceField_pace:
  "paceField (pace miles hrs) =
     (if miles > 0 \<and> hrs \<noteq> 0 then Some (Fin (round1 (hrs * 60 / miles))) else None)"
  by (simp add: paceField_def pace_def js_div_def jtruthy_def jround1_def)

lemma paceField_nonneg: "0 \<le> hrs \<Longrightarrow> nonneg_or_null (paceField (pace miles hrs))"
  by (simp add: paceField_pace nonneg_or_null_def round1_nonneg)

lemma hours_nonneg: "0 \<le> or0 (Moving_Time a) \<Longrightarrow> 0 \<le> hours a"
  by (simp add: hours_def)

lemma periodStats_paces:
  assumes "\<And>a. a \<in> set xs \<Longrightarrow> 0 \<le> or0 (Moving_Time a)"
  shows "nonneg_or_null (trailPace (periodStats xs)) \<and> nonneg_or_null (roadPace (periodStats xs))"
proof -
  have "0 \<le> sumOf hours (filter P xs)" for P
    by (rule sumOf_nonneg) (use assms hours_nonneg in auto)
  then show ?thesis
    by (simp add: periodStats_def Let_def paceField_nonneg)
qed

lemma monthStats_paces:
  assumes "\<And>a. a \<in> set xs \<Longrightarrow> 0 \<le> or0 (Moving_Time a)"
  shows "nonneg_or_null (trailPace (monthStats xs)) \<and> nonneg_or_null (roadPace (monthStats xs))"
proof -
  have "0 \<le> sumOf hours (filter P xs)" for P
    by (rule sumOf_nonneg) (use assms hours_nonneg in auto)
  then show ?thesis
    by (simp add: monthStats_def Let_def paceField_nonneg)
qed

lemma runningActivities_subset: "set (runningActivities acts) \<subseteq> set acts"
  by (auto simp: runningActivities_def)

lemma activitiesWithin_subset: "set (activitiesWithin s e acts) \<subseteq> set acts"
  by (auto simp: activitiesWithin_def)

lemma sumOf_Nil [simp]: "sumOf f [] = 0"
  by (simp add: sumOf_def)

lemma pace_0 [simp]: "paceField (pace 0 h) = None"
  by (simp add: paceField_pace)



lemma empty_stats_extend [simp]: "empty_stats (stats.extend s e) = empty_stats s"
  by (simp add: empty_stats_def)

lemma nonneg_yearly:
  assumes "\<forall>a \<in> set activities. 0 \<le> or0 (Moving_Time a)"
  shows "\<forall>b \<in> set (yearlyData l activities). nonneg_or_null (trailPace b) \<and> nonneg_or_null (roadPace b)"
proof
  fix b assume "b \<in> set (yearlyData l activities)"
  then obtain xs e where b: "b = stats.extend (periodStats xs) e" and xs: "set xs \<subseteq> set activities"
    using runningActivities_subset activitiesWithin_subset
    by (fastforce simp: yearlyData_def Let_def split: if_splits)
  from periodStats_paces [of xs] xs assms b
  show "nonneg_or_null (trailPace b) \<and> nonneg_or_null (roadPace b)" by auto
qed

lemma within_running_subset:
  "set (activitiesWithin s e (runningActivities acts)) \<subseteq> set acts"
  using runningActivities_subset activitiesWithin_subset by blast

lemma within2_running_subset:
  "set (activitiesWithin s' e' (activitiesWithin s e (runningActivities acts))) \<subseteq> set acts"
  using within_running_subset activitiesWithin_subset by blast

lemma monthlyData_elem:
  assumes "b \<in> set (monthlyData l y activities)"
  shows "\<exists>xs e. b = stats.extend (monthStats xs) e \<and> set xs \<subseteq> set activities"
proof -
  from assms obtain month where
    "b = stats.extend (monthStats (activitiesWithin
            (startOfMonth (mkDate y (int month) 1))
            (endOfMonth (startOfMonth (mkDate y (int month) 1)))
            (activitiesWithin (startOfYear (mkDate y 0 1)) (endOfYear (startOfYear (mkDate y 0 1)))
               (runningActivities activities)))) (monthly.fields month)"
    by (auto simp: monthlyData_def Let_def split: if_splits)
  with within2_running_subset show ?thesis by blast
qed

lemma weeklyData_elem:
  assumes "b \<in> set (weeklyData l y sel activities)"
  shows "\<exists>xs e. b = stats.extend (periodStats xs) e \<and> set xs \<subseteq> set activities"
proof -
  from assms obtain m index where
    "b = stats.extend (periodStats (activitiesWithin
            (eachWeekOfInterval (mkDate y (int m) 1) (mkDate y (int m + 1) 0) ! index)
            (endOfWeek 0 (eachWeekOfInterval (mkDate y (int m) 1) (mkDate y (int m + 1) 0) ! index))
            (activitiesWithin (mkDate y (int m) 1) (mkDate y (int m + 1) 0)
               (runningActivities activities))))
          (weekly.fields index (eachWeekOfInterval (mkDate y (int m) 1) (mkDate y (int m + 1) 0) ! index))"
    by (auto simp: weeklyData_def Let_def split: if_splits option.splits)
  with within2_running_subset show ?thesis by blast
qed

lemma dailyData_elem:
  assumes "b \<in> set (dailyData l sel activities)"
  shows "\<exists>xs e. b = stats.extend (periodStats xs) e \<and> set xs \<subseteq> set activities"
proof -
  from assms obtain ws day where
    "b = stats.extend (periodStats (filter (\<lambda>act. isSameDay (Activity_Date act) day)
            (activitiesWithin ws (endOfWeek 0 ws) (runningActivities activities))))
          (daily.fields day)"
    by (auto simp: dailyData_def Let_def split: if_splits option.splits)
  moreover have "set (filter (\<lambda>act. isSameDay (Activity_Date act) day)
            (activitiesWithin ws (endOfWeek 0 ws) (runningActivities activities))) \<subseteq> set activities"
    using within_running_subset by auto
  ultimately show ?thesis by blast
qed

lemma yearlyData_elem:
  assumes "b \<in> set (yearlyData l activities)"
  shows "\<exists>xs e. b = stats.extend (periodStats xs) e \<and> set xs \<subseteq> set activities"
  using assms within_running_subset
  by (fastforce simp: yearlyData_def Let_def split: if_splits)

lemma season_elem:
  assumes "b \<in> set (monthlyData_season y activities)"
  shows "\<exists>xs. set xs \<subseteq> set activities \<and> runs b = length xs
     \<and> totalMiles b = round1 (sumOf distance xs)
     \<and> trailMiles b = round1 (sumOf distance (filter isTrailRun xs))
     \<and> roadMiles b = round1 (sumOf distance (filter (\<lambda>act. \<not> isTrailRun act) xs))
     \<and> totalHours b = round1 (sumOf hours xs)
     \<and> trailPace b = paceField (pace (sumOf distance (filter isTrailRun xs)) (sumOf hours (filter isTrailRun xs)))
     \<and> roadPace b = paceField (pace (sumOf distance (filter (\<lambda>act. \<not> isTrailRun act) xs))
                                      (sumOf hours (filter (\<lambda>act. \<not> isTrailRun act) xs)))"
proof -
  from assms obtain month where b: "b \<in> set (monthlyData_season y activities)"
    "season_monthNumber b = month" by blast
  define xs where "xs = activitiesWithin (mkDate y (int (season_monthNumber b)) 1)
       (mkDate y (int (season_monthNumber b) + 1) 0)
       (activitiesWithin (startOfYear (mkDate y 0 1)) (endOfYear (startOfYear (mkDate y 0 1)))
               (runningActivities activities))"
  have "set xs \<subseteq> set activities" unfolding xs_def by (rule within2_running_subset)
  moreover from assms have "runs b = length xs
     \<and> totalMiles b = round1 (sumOf distance xs)
     \<and> trailMiles b = round1 (sumOf distance (filter isTrailRun xs))
     \<and> roadMiles b = round1 (sumOf distance (filter (\<lambda>act. \<not> isTrailRun act) xs))
     \<and> totalHours b = round1 (sumOf hours xs)
     \<and> trailPace b = paceField (pace (sumOf distance (filter isTrailRun xs)) (sumOf hours (filter isTrailRun xs)))
     \<and> roadPace b = paceField (pace (sumOf distance (filter (\<lambda>act. \<not> isTrailRun act) xs))
                                      (sumOf hours (filter (\<lambda>act. \<not> isTrailRun act) xs)))"
    unfolding xs_def by (auto simp: monthlyData_season_def Let_def)
  ultimately show ?thesis by blast
qed

subsection \<open>Weeks and days of the drill-down\<close>





lemma run_types: "isRunningActivity ''Run''" "isRunningActivity ''Trail Run''"
  by (simp_all add: isRunningActivity_def trim_def toLowerCase_def isWhiteSpace_def)








lemma sample_dates:
  "mkDate 2024 5 15 + 32400000 = 1718442000000"
  "getFullYear 1718442000000 = 2024"
  "startOfYear (mkDate 2024 0 1) = 1704067200000"
  "endOfYear 1704067200000 = 1735689599999"
  "mkDate 2024 0 10 + 32400000 = 1704877200000"
  "getFullYear 1704877200000 = 2024"
  by code_simp+




subsection \<open>Paces\<close>

lemma yearlyData_single:
  assumes "isRunningActivity (Activity_Type a)" and "Activity_Date a = Some t"
    and "getFullYear t = 2024" and "1704067200000 \<le> t" and "t \<le> 1735689599999"
  shows "yearlyData Years [a] = [stats.extend (periodStats [a]) (yearly.fields 2024)]"
  using assms
  by (simp add: yearlyData_def availableYears_def runningActivities_def since2016_def
        activitiesWithin_def isWithinInterval_def sample_dates Let_def)

lemma trailRun_stats:
  "trailPace (periodStats [trailRun]) = Some (Fin 10)"
  by (simp add: periodStats_def Let_def trailRun_def isTrailRun_def totalDistance_def
        positive_def truthy_def or0_def sumOf_def distance_def hours_def paceField_pace round1_def)

lemma glitchRun_stats:
  "trailPace (periodStats [glitchRun]) = Some (Fin 0)"
  by (simp add: periodStats_def Let_def glitchRun_def isTrailRun_def totalDistance_def
        positive_def truthy_def or0_def sumOf_def distance_def hours_def paceField_pace round1_def)

text \<open>
  C10, amended. When no moving time is negative, the trail and road pace fields of
  every bucket (yearly, monthly, weekly, daily, and the season view's months) are null or
  a number that is not negative. The field is null exactly when the miles of the subset are
  not positive or its hours are 0: a pace of exactly 0 is reported as null. A pace above 0
  and below 0.05 passes that test and is then rounded to 0.
\<close>

theorem bucket_paces_null_or_nonnegative:
  assumes "\<forall>a \<in> set acts. 0 \<le> or0 (Moving_Time a)"
  shows "(\<forall>b \<in> set (yearlyData l acts). nonneg_or_null (trailPace b) \<and> nonneg_or_null (roadPace b))
     \<and> (\<forall>b \<in> set (monthlyData l y acts). nonneg_or_null (trailPace b) \<and> nonneg_or_null (roadPace b))
     \<and> (\<forall>b \<in> set (weeklyData l y sel acts). nonneg_or_null (trailPace b) \<and> nonneg_or_null (roadPace b))
     \<and> (\<forall>b \<in> set (dailyData l selw acts). nonneg_or_null (trailPace b) \<and> nonneg_or_null (roadPace b))
     \<and> (\<forall>b \<in> set (monthlyData_season y acts). nonneg_or_null (trailPace b) \<and> nonneg_or_null (roadPace b))
     \<and> (paceField (pace miles hrs) = None \<longleftrightarrow> miles \<le> 0 \<or> hrs = 0)"
proof -
  have sub: "\<And>xs a. set xs \<subseteq> set acts \<Longrightarrow> a \<in> set xs \<Longrightarrow> 0 \<le> or0 (Moving_Time a)"
    using assms by blast
  have 1: "\<forall>b \<in> set (yearlyData l acts). nonneg_or_null (trailPace b) \<and> nonneg_or_null (roadPace b)"
    using yearlyData_elem periodStats_paces sub by (metis extend_fields(6,7))
  have 2: "\<forall>b \<in> set (monthlyData l y acts). nonneg_or_null (trailPace b) \<and> nonneg_or_null (roadPace b)"
    using monthlyData_elem monthStats_paces sub by (metis extend_fields(6,7))
  have 3: "\<forall>b \<in> set (weeklyData l y sel acts). nonneg_or_null (trailPace b) \<and> nonneg_or_null (roadPace b)"
    using weeklyData_elem periodStats_paces sub by (metis extend_fields(6,7))
  have 4: "\<forall>b \<in> set (dailyData l selw acts). nonneg_or_null (trailPace b) \<and> nonneg_or_null (roadPace b)"
    using dailyData_elem periodStats_paces sub by (metis extend_fields(6,7))
  have 5: "\<forall>b \<in> set (monthlyData_season y acts). nonneg_or_null (trailPace b) \<and> nonneg_or_null (roadPace b)"
  proof
    fix b assume b: "b \<in> set (monthlyData_season y acts)"
    from season_elem [OF b] obtain xs where xs: "set xs \<subseteq> set acts"
     "trailPace b = paceField (pace (sumOf distance (filter isTrailRun xs)) (sumOf hours (filter isTrailRun xs)))"
     "roadPace b = paceField (pace (sumOf distance (filter (\<lambda>act. \<not> isTrailRun act) xs))
                                      (sumOf hours (filter (\<lambda>act. \<not> isTrailRun act) xs)))"
      by blast
    have "0 \<le> sumOf hours (filter P xs)" for P
      by (rule sumOf_nonneg) (use sub [OF xs(1)] hours_nonneg in auto)
    then show "nonneg_or_null (trailPace b) \<and> nonneg_or_null (roadPace b)"
      unfolding xs(2,3) by (simp add: paceField_nonneg)
  qed
  have 6: "paceField (pace miles hrs) = None \<longleftrightarrow> miles \<le> 0 \<or> hrs = 0"
    by (auto simp: paceField_pace)
  from 1 2 3 4 5 6 show ?thesis by blast
qed

theorem bucket_paces_null_or_nonnegative_witness:
  "0 \<le> or0 (Moving_Time trailRun)
   \<and> map trailPace (yearlyData Years [trailRun]) = [Some (Fin 10)]
   \<and> nonneg_or_null (Some (Fin 10))"
proof -
  have h: "\<forall>a \<in> set [trailRun]. 0 \<le> or0 (Moving_Time a)"
    by (simp add: trailRun_def or0_def)
  have y: "yearlyData Years [trailRun] = [stats.extend (periodStats [trailRun]) (yearly.fields 2024)]"
    by (rule yearlyData_single [of _ 1718442000000])
       (simp_all add: trailRun_def run_types sample_dates)
  have "\<forall>b \<in> set (yearlyData Years [trailRun]). nonneg_or_null (trailPace b)"
    using bucket_paces_null_or_nonnegative [OF h, of Years] by blast
  then have "nonneg_or_null (Some (Fin 10))"
    unfolding y by (simp add: trailRun_stats)
  with h y show ?thesis by (simp add: trailRun_stats)
qed

text \<open>
  Ten trail miles with a moving time of one second: the pace is 1/600 minute per mile,
  and the field is 0, neither null nor above 0.
\<close>

theorem pace_rounds_to_zero_counterexample:
  "0 \<le> or0 (Moving_Time glitchRun)
   \<and> map trailPace (yearlyData Years [glitchRun]) = [Some (Fin 0)]"
proof -
  have y: "yearlyData Years [glitchRun] = [stats.extend (periodStats [glitchRun]) (yearly.fields 2024)]"
    by (rule yearlyData_single [of _ 1718442000000])
       (simp_all add: glitchRun_def run_types sample_dates)
  show ?thesis unfolding y by (simp add: glitchRun_stats) (simp add: glitchRun_def or0_def)
qed

text \<open>
  C6. The pace of a bucket is computed only when the miles of the subset are above 0
  (\<open>paceField_pace\<close>), and so is the average pace of a month in the season view. The
  average pace of the season is guarded by the hours instead: for a year whose runs have a
  moving time and no distance, it divides by a mileage of 0 and the field is Infinity, not
  the zero sentinel.
\<close>

theorem runningStats_avgPace_divides_by_zero:
  "sumOf distance [treadmillRun] = 0 \<and> runningStats_avgPace 2024 [treadmillRun] = PosInf"
proof -
  have r: "runningActivities [treadmillRun] = [treadmillRun]"
    by (simp add: runningActivities_def treadmillRun_def run_types since2016_def sample_dates)
  have "runningStats_avgPace 2024 [treadmillRun] = PosInf"
    unfolding runningStats_avgPace_def r sample_dates Let_def
    by (simp add: activitiesWithin_def isWithinInterval_def treadmillRun_def sample_dates sumOf_def
        distance_def hours_def truthy_def or0_def js_div_def jround1_def)
  moreover have "sumOf distance [treadmillRun] = 0"
    by (simp add: sumOf_def distance_def treadmillRun_def truthy_def)
  ultimately show ?thesis by simp
qed

end
